theory Spec2Isabelle
  imports Complex_Main "HOL-Library.AList"
begin

section \<open>Configuration\<close>

text \<open>
  The constants of class \<open>Config\<close> that the vehicle state engine reads. Python floats are
  idealised as real numbers and Python ints as \<open>int\<close>; rounding, NaN and infinities of
  IEEE arithmetic are outside the model (the one infinity the code uses,
  \<open>float('inf')\<close> as the initial nearest distance, is the value \<open>None\<close> below).
\<close>

definition LANE_COUNT :: int where
  "LANE_COUNT = 4"

definition SERVICE_LANE_INDEX :: int where
  "SERVICE_LANE_INDEX = 3"

definition TOTAL_LENGTH :: real where
  "TOTAL_LENGTH = 2000"

definition MAX_SPEED_KMH :: real where
  "MAX_SPEED_KMH = 250"

definition MAX_SPEED_MS :: real where
  "MAX_SPEED_MS = MAX_SPEED_KMH / 3.6"

definition ACCEL :: real where
  "ACCEL = 10"

definition BRAKE :: real where
  "BRAKE = 25"

definition SAFE_DIST :: real where
  "SAFE_DIST = 200"

definition CRITICAL_DIST :: real where
  "CRITICAL_DIST = 80"

definition AMBULANCE_DIST :: real where
  "AMBULANCE_DIST = 400"

definition GHOST_TIMEOUT :: real where
  "GHOST_TIMEOUT = 3.0"

section \<open>Vehicles\<close>

text \<open>
  The attributes of class \<open>Vehicle\<close>, under the names of the source; \<open>id\<close> and \<open>x\<close> are
  \<open>v_id\<close> and \<open>v_x\<close>. A colour is a Python tuple of ints, kept as a list because
  \<open>from_json\<close> builds it with \<open>tuple(d['col'])\<close> from a JSON array of any length.
\<close>

record vehicle =
  v_id :: string
  is_emergency :: bool
  lane :: int
  visual_lane :: real
  v_x :: real
  speed :: real
  user_target_speed :: real
  target_speed :: real
  color :: "int list"
  warning_vehicle_ahead :: bool
  braking :: bool
  drowsy_alert :: bool
  last_update :: real
  lane_change_cooldown :: real

text \<open>
  The constructor draws random numbers and reads the clock. The draws
  (\<open>randint(0, 1500)\<close>, \<open>randint(20, 30)\<close> and the two \<open>randint(50, 200)\<close> of the colour)
  and the clock value are parameters of the model.
\<close>

record rnd =
  rnd_x :: int
  rnd_speed :: int
  rnd_red :: int
  rnd_green :: int

definition Vehicle_init :: "string \<Rightarrow> bool \<Rightarrow> rnd \<Rightarrow> real \<Rightarrow> vehicle" where
  "Vehicle_init uid is_em r now =
     (let lane0 = (if \<not> is_em then 1 else 0);
          sp = (if is_em then MAX_SPEED_MS else of_int (rnd_speed r))
      in \<lparr> v_id = uid,
           is_emergency = is_em,
           lane = lane0,
           visual_lane = of_int lane0,
           v_x = (if is_em then 0 else of_int (rnd_x r)),
           speed = sp,
           user_target_speed = 25,
           target_speed = sp,
           color = (if is_em then [255, 215, 0] else [rnd_red r, rnd_green r, 255]),
           warning_vehicle_ahead = False,
           braking = False,
           drowsy_alert = False,
           last_update = now,
           lane_change_cooldown = 0 \<rparr>)"

datatype py_error = JSONDecodeError | KeyError | TypeError | AttributeError

text \<open>
  The dictionary \<open>vehicles\<close> maps an id to a vehicle object. Python dictionaries keep
  insertion order and \<open>update_physics\<close> iterates over the values, so the dictionary is an
  association list: \<open>AList.update\<close> replaces in place or appends, \<open>AList.delete\<close> removes a
  key. A value is \<open>None\<close> where the source stores Python's \<open>None\<close> under a key
  (\<open>on_message\<close> stores the result of \<open>from_json\<close> unchecked).
\<close>

type_synonym store = "(string \<times> vehicle option) list"

section \<open>Vehicle.update_physics\<close>

text \<open>
  The three locals of the scanning loop. \<open>dist_to_ahead = None\<close> stands for
  \<open>float('inf')\<close>.
\<close>

record scan =
  dist_to_ahead :: "real option"
  speed_of_car_ahead :: "real option"
  ambulance_behind :: bool

definition scan_init :: scan where
  "scan_init = \<lparr> dist_to_ahead = None, speed_of_car_ahead = None, ambulance_behind = False \<rparr>"

text \<open>Comparison of a finite number with a possibly infinite one, on either side.\<close>

definition lt_inf :: "real \<Rightarrow> real option \<Rightarrow> bool" where
  "lt_inf d m = (case m of None \<Rightarrow> True | Some e \<Rightarrow> d < e)"

definition inf_lt :: "real option \<Rightarrow> real \<Rightarrow> bool" where
  "inf_lt m c = (case m of None \<Rightarrow> False | Some e \<Rightarrow> e < c)"

text \<open>The two distances of the loop body, after their wrap-around correction.\<close>

definition d_ahead :: "vehicle \<Rightarrow> vehicle \<Rightarrow> real" where
  "d_ahead me other =
     (let d = v_x other - v_x me in if d < 0 then d + TOTAL_LENGTH else d)"

definition d_behind :: "vehicle \<Rightarrow> vehicle \<Rightarrow> real" where
  "d_behind me other =
     (let d = v_x me - v_x other in if d < 0 then d + TOTAL_LENGTH else d)"

text \<open>One iteration of \<open>for other in all_vehicles.values()\<close>.\<close>

definition scan_one :: "vehicle \<Rightarrow> vehicle \<Rightarrow> scan \<Rightarrow> scan" where
  "scan_one me other sc =
     (if v_id other = v_id me then sc
      else if lane other = lane me then
        (let sc1 = (if lt_inf (d_ahead me other) (dist_to_ahead sc)
                    then sc\<lparr> dist_to_ahead := Some (d_ahead me other),
                             speed_of_car_ahead := Some (speed other) \<rparr>
                    else sc)
         in if is_emergency other \<and> d_behind me other < AMBULANCE_DIST
            then sc1\<lparr> ambulance_behind := True \<rparr> else sc1)
      else sc)"

text \<open>
  The loop. Reading \<open>other.id\<close> of a \<open>None\<close> value raises \<open>AttributeError\<close>, which
  \<open>update_physics\<close> does not catch.
\<close>

fun scan_others :: "vehicle \<Rightarrow> vehicle option list \<Rightarrow> scan \<Rightarrow> py_error + scan" where
  "scan_others me [] sc = Inr sc"
| "scan_others me (None # os) sc = Inl AttributeError"
| "scan_others me (Some other # os) sc = scan_others me os (scan_one me other sc)"

text \<open>
  The statements between the loop and the rule chain: both warning flags are cleared and
  the cooldown is decremented. \<open>drowsy_alert\<close> is not touched here.
\<close>

definition reset_flags :: "real \<Rightarrow> vehicle \<Rightarrow> vehicle" where
  "reset_flags dt v =
     v\<lparr> warning_vehicle_ahead := False,
        braking := False,
        lane_change_cooldown := lane_change_cooldown v - dt \<rparr>"

text \<open>
  The rule chain under \<open># === LOGIC ===\<close>, an \<open>if/elif\<close> cascade. In the last but one
  branch \<open>speed_of_car_ahead or 0\<close> is \<open>0\<close> when the speed is \<open>None\<close> or zero and the speed
  itself otherwise.
\<close>

definition logic :: "bool \<Rightarrow> scan \<Rightarrow> vehicle \<Rightarrow> vehicle" where
  "logic is_me_drowsy sc v0 =
     (if is_me_drowsy then
        (let v = v0\<lparr> drowsy_alert := True \<rparr>
         in if lane v \<noteq> SERVICE_LANE_INDEX then
              (if lane_change_cooldown v \<le> 0
               then v\<lparr> lane := lane v + 1, lane_change_cooldown := 1.0 \<rparr>
               else v)
            else v\<lparr> target_speed := 0, braking := True \<rparr>)
      else if ambulance_behind sc \<and> \<not> is_emergency v0 \<and> lane_change_cooldown v0 \<le> 0 then
        (if lane v0 < LANE_COUNT - 1
         then v0\<lparr> lane := lane v0 + 1, lane_change_cooldown := 2.0 \<rparr>
         else if lane v0 > 0
         then v0\<lparr> lane := lane v0 - 1, lane_change_cooldown := 2.0 \<rparr>
         else v0)
      else if is_emergency v0 then v0\<lparr> target_speed := MAX_SPEED_MS * 1.2 \<rparr>
      else if inf_lt (dist_to_ahead sc) CRITICAL_DIST then
        v0\<lparr> target_speed := 0, warning_vehicle_ahead := True, braking := True \<rparr>
      else if inf_lt (dist_to_ahead sc) SAFE_DIST then
        (let v = v0\<lparr> target_speed :=
                       (case speed_of_car_ahead sc of Some s \<Rightarrow> s * 0.8 | None \<Rightarrow> 10),
                     braking := True \<rparr>
         in if speed v > (case speed_of_car_ahead sc of None \<Rightarrow> 0 | Some s \<Rightarrow> s)
            then v\<lparr> warning_vehicle_ahead := True \<rparr> else v)
      else v0\<lparr> target_speed := user_target_speed v0 \<rparr>)"

text \<open>The statements under \<open># Physics\<close>: speed ramp, clamp, advance, wrap.\<close>

definition physics :: "real \<Rightarrow> vehicle \<Rightarrow> vehicle" where
  "physics dt v0 =
     (let v1 = (if speed v0 < target_speed v0 then v0\<lparr> speed := speed v0 + ACCEL * dt \<rparr>
                else if speed v0 > target_speed v0 then v0\<lparr> speed := speed v0 - BRAKE * dt \<rparr>
                else v0);
          v2 = v1\<lparr> speed := max 0 (min (speed v1) (MAX_SPEED_MS * 1.5)) \<rparr>;
          v3 = v2\<lparr> v_x := v_x v2 + speed v2 * dt \<rparr>
      in if v_x v3 > TOTAL_LENGTH then v3\<lparr> v_x := 0 \<rparr> else v3)"

text \<open>
  \<open>update_physics(self, dt, all_vehicles, is_me_drowsy)\<close> mutates \<open>self\<close>; the model
  returns the vehicle after the call, or the exception that leaves the loop.
\<close>

definition update_physics :: "vehicle \<Rightarrow> real \<Rightarrow> store \<Rightarrow> bool \<Rightarrow> py_error + vehicle" where
  "update_physics me dt all_vehicles is_me_drowsy =
     (case scan_others me (map snd all_vehicles) scan_init of
        Inl e \<Rightarrow> Inl e
      | Inr sc \<Rightarrow> Inr (physics dt (logic is_me_drowsy sc (reset_flags dt me))))"

text \<open>A dictionary all of whose values are vehicle objects.\<close>

definition all_vehicles_ok :: "store \<Rightarrow> bool" where
  "all_vehicles_ok st = list_all (\<lambda>e. snd e \<noteq> None) st"

section \<open>The wire format\<close>

text \<open>
  \<open>json.dumps\<close> and \<open>json.loads\<close> belong to the Python library. A payload is identified
  with what \<open>json.loads\<close> makes of it: it is not JSON (or not decodable text), or it is
  JSON but no object, or it is an object. Of an object the model keeps the eight keys the
  program reads, each absent (\<open>None\<close>) or present with a value of the type the wire format
  gives it: \<open>id\<close>, \<open>lane\<close>, \<open>x\<close>, \<open>spd\<close>, \<open>emb\<close>, \<open>col\<close>, \<open>drw\<close>, \<open>brk\<close>. Values of other JSON
  types under these keys are outside the model.
\<close>

record wire =
  w_id :: "string option"
  w_lane :: "int option"
  w_x :: "real option"
  w_spd :: "real option"
  w_emb :: "bool option"
  w_col :: "int list option"
  w_drw :: "bool option"
  w_brk :: "bool option"

datatype payload = NotJSON | NonObject | Object wire

text \<open>\<open>Vehicle.to_json\<close>: every key is written.\<close>

definition to_json :: "vehicle \<Rightarrow> payload" where
  "to_json v =
     Object \<lparr> w_id = Some (v_id v), w_lane = Some (lane v), w_x = Some (v_x v),
              w_spd = Some (speed v), w_emb = Some (is_emergency v),
              w_col = Some (color v), w_drw = Some (drowsy_alert v),
              w_brk = Some (braking v) \<rparr>"

text \<open>
  The body of the \<open>try\<close> of \<open>Vehicle.from_json\<close>. \<open>d['k']\<close> raises \<open>KeyError\<close> on an absent
  key and \<open>TypeError\<close> when \<open>d\<close> is no object; \<open>d.get('k', False)\<close> raises nothing.
\<close>

definition from_json_try :: "real \<Rightarrow> rnd \<Rightarrow> payload \<Rightarrow> py_error + vehicle" where
  "from_json_try now r p =
     (case p of
        NotJSON \<Rightarrow> Inl JSONDecodeError
      | NonObject \<Rightarrow> Inl TypeError
      | Object d \<Rightarrow>
          (case w_id d of None \<Rightarrow> Inl KeyError | Some i \<Rightarrow>
          (case w_emb d of None \<Rightarrow> Inl KeyError | Some e \<Rightarrow>
          (case w_lane d of None \<Rightarrow> Inl KeyError | Some l \<Rightarrow>
          (case w_x d of None \<Rightarrow> Inl KeyError | Some px \<Rightarrow>
          (case w_spd d of None \<Rightarrow> Inl KeyError | Some s \<Rightarrow>
          (case w_col d of None \<Rightarrow> Inl KeyError | Some c \<Rightarrow>
             Inr ((Vehicle_init i e r now)
                    \<lparr> lane := l, v_x := px, speed := s, color := c,
                       drowsy_alert := (case w_drw d of None \<Rightarrow> False | Some b \<Rightarrow> b),
                       braking := (case w_brk d of None \<Rightarrow> False | Some b \<Rightarrow> b),
                       visual_lane := of_int l,
                       last_update := now \<rparr>))))))))"

text \<open>\<open>Vehicle.from_json\<close>: \<open>except: return None\<close>.\<close>

definition from_json :: "real \<Rightarrow> rnd \<Rightarrow> payload \<Rightarrow> vehicle option" where
  "from_json now r p = (case from_json_try now r p of Inl e \<Rightarrow> None | Inr v \<Rightarrow> Some v)"

section \<open>V2XApp: the replication store\<close>

text \<open>
  The part of \<open>V2XApp\<close> that replication reads and writes. \<open>self.my_vehicle\<close> is the object
  stored under its own id when the application starts; \<open>my_id\<close> is \<open>self.my_vehicle.id\<close>
  and the object is the entry of \<open>vehicles\<close> under that key.
\<close>

record app =
  my_id :: string
  vehicles :: store
  i_own_ambulance :: bool

text \<open>
  The assignments of the \<open>else\<close> branch of \<open>on_message\<close>, in the order of the source:
  \<open>x\<close>, \<open>lane\<close>, \<open>spd\<close>, \<open>emb\<close>, then the two optional flags and the time stamp. The result
  is the object as it stands when the statement sequence ends, with the exception that
  ended it, if any.
\<close>

definition assign_fields :: "real \<Rightarrow> wire \<Rightarrow> vehicle \<Rightarrow> vehicle \<times> py_error option" where
  "assign_fields now d v0 =
     (case w_x d of None \<Rightarrow> (v0, Some KeyError) | Some px \<Rightarrow>
        (let v1 = v0\<lparr> v_x := px \<rparr> in
     case w_lane d of None \<Rightarrow> (v1, Some KeyError) | Some l \<Rightarrow>
        (let v2 = v1\<lparr> lane := l \<rparr> in
     case w_spd d of None \<Rightarrow> (v2, Some KeyError) | Some s \<Rightarrow>
        (let v3 = v2\<lparr> speed := s \<rparr> in
     case w_emb d of None \<Rightarrow> (v3, Some KeyError) | Some e \<Rightarrow>
        (v3\<lparr> is_emergency := e,
             drowsy_alert := (case w_drw d of None \<Rightarrow> False | Some b \<Rightarrow> b),
             braking := (case w_brk d of None \<Rightarrow> False | Some b \<Rightarrow> b),
             last_update := now \<rparr>, None)))))"

text \<open>
  The body of the \<open>try\<close> of \<open>on_message\<close>: the application as the body leaves it and the
  exception that ended it, if any. Setting an attribute of a \<open>None\<close> entry raises
  \<open>AttributeError\<close>.
\<close>

definition on_message_try :: "real \<Rightarrow> rnd \<Rightarrow> payload \<Rightarrow> app \<Rightarrow> app \<times> py_error option" where
  "on_message_try now r p a =
     (case p of
        NotJSON \<Rightarrow> (a, Some JSONDecodeError)
      | NonObject \<Rightarrow> (a, Some TypeError)
      | Object d \<Rightarrow>
          (case w_id d of None \<Rightarrow> (a, Some KeyError) | Some i \<Rightarrow>
             if i \<noteq> my_id a then
               if i = ''AMB-1'' \<and> i_own_ambulance a then (a, None)
               else
                 (case map_of (vehicles a) i of
                    None \<Rightarrow>
                      (a\<lparr> vehicles := AList.update i (from_json now r p) (vehicles a) \<rparr>, None)
                  | Some None \<Rightarrow> (a, Some AttributeError)
                  | Some (Some v) \<Rightarrow>
                      (let (v', err) = assign_fields now d v
                       in (a\<lparr> vehicles := AList.update i (Some v') (vehicles a) \<rparr>, err)))
             else (a, None)))"

text \<open>\<open>V2XApp.on_message\<close>: \<open>except: pass\<close>.\<close>

definition on_message :: "real \<Rightarrow> rnd \<Rightarrow> payload \<Rightarrow> app \<Rightarrow> app" where
  "on_message now r p a = fst (on_message_try now r p a)"

text \<open>A sequence of deliveries, each with the clock value and the draws of its call.\<close>

fun on_messages :: "(real \<times> rnd \<times> payload) list \<Rightarrow> app \<Rightarrow> app" where
  "on_messages [] a = a"
| "on_messages ((now, r, p) # ms) a = on_messages ms (on_message now r p a)"

text \<open>
  The list comprehension of \<open>cleanup_ghosts\<close>. The \<open>and\<close> reads \<open>v.last_update\<close> only for
  a key other than the own id; on a \<open>None\<close> value that raises \<open>AttributeError\<close>.
\<close>

fun ghost_ids :: "string \<Rightarrow> real \<Rightarrow> store \<Rightarrow> py_error + string list" where
  "ghost_ids me now [] = Inr []"
| "ghost_ids me now ((vid, e) # st) =
     (if vid \<noteq> me then
        (case e of
           None \<Rightarrow> Inl AttributeError
         | Some v \<Rightarrow>
             (case ghost_ids me now st of
                Inl err \<Rightarrow> Inl err
              | Inr gs \<Rightarrow>
                  Inr (if now - last_update v > GHOST_TIMEOUT then vid # gs else gs)))
      else ghost_ids me now st)"

text \<open>\<open>for vid in ghosts: del self.vehicles[vid]\<close>.\<close>

fun del_all :: "string list \<Rightarrow> store \<Rightarrow> store" where
  "del_all [] st = st"
| "del_all (vid # gs) st = del_all gs (AList.delete vid st)"

text \<open>\<open>V2XApp.cleanup_ghosts\<close>, with \<open>time.time()\<close> as the parameter \<open>now\<close>.\<close>

definition cleanup_ghosts :: "real \<Rightarrow> app \<Rightarrow> py_error + app" where
  "cleanup_ghosts now a =
     (case ghost_ids (my_id a) now (vehicles a) of
        Inl err \<Rightarrow> Inl err
      | Inr ghosts \<Rightarrow>
          (let ghosts' = (if i_own_ambulance a \<and> ''AMB-1'' \<in> set ghosts
                          then remove1 ''AMB-1'' ghosts else ghosts)
           in Inr (a\<lparr> vehicles := del_all ghosts' (vehicles a) \<rparr>)))"

section \<open>Vocabulary of the claims and example states\<close>

text \<open>
  What the loop finds, stated on the dictionary with the distances \<open>d_behind\<close> and
  \<open>d_ahead\<close> of the loop body: another vehicle (a different id) of the same lane, an
  emergency vehicle whose \<open>d_behind\<close> is below \<open>AMBULANCE_DIST\<close>, or any vehicle whose
  \<open>d_ahead\<close> is below the bound \<open>c\<close>.
\<close>

definition emergency_behind :: "vehicle \<Rightarrow> store \<Rightarrow> bool" where
  "emergency_behind me st =
     list_ex (\<lambda>e. case snd e of None \<Rightarrow> False
                   | Some other \<Rightarrow> v_id other \<noteq> v_id me \<and> lane other = lane me
                       \<and> is_emergency other \<and> d_behind me other < AMBULANCE_DIST) st"

definition vehicle_ahead_within :: "real \<Rightarrow> vehicle \<Rightarrow> store \<Rightarrow> bool" where
  "vehicle_ahead_within c me st =
     list_ex (\<lambda>e. case snd e of None \<Rightarrow> False
                   | Some other \<Rightarrow> v_id other \<noteq> v_id me \<and> lane other = lane me
                       \<and> d_ahead me other < c) st"

text \<open>
  Concrete vehicles for the scenarios: an ordinary car and the ambulance, as their
  constructor makes them, placed on a lane at a position with a speed.
\<close>

definition draws :: rnd where
  "draws = \<lparr> rnd_x = 0, rnd_speed = 25, rnd_red = 100, rnd_green = 100 \<rparr>"

definition car :: "string \<Rightarrow> int \<Rightarrow> real \<Rightarrow> real \<Rightarrow> vehicle" where
  "car uid l px sp =
     (Vehicle_init uid False draws 0)
       \<lparr> lane := l, visual_lane := of_int l, v_x := px, speed := sp, target_speed := sp \<rparr>"

definition ambulance :: "int \<Rightarrow> real \<Rightarrow> vehicle" where
  "ambulance l px =
     (Vehicle_init ''AMB-1'' True draws 0)
       \<lparr> lane := l, visual_lane := of_int l, v_x := px \<rparr>"

text \<open>The invariant of a dictionary: no key occurs twice.\<close>

definition keys_ok :: "store \<Rightarrow> bool" where
  "keys_ok st = distinct (map fst st)"

text \<open>
  The wrap of a position as the specification words it, \<open>position mod TRACK_LENGTH\<close>, with
  the remainder of Python's \<open>%\<close> on floats. It is not part of the program; the position
  step of \<open>physics\<close> and the distances of the loop are compared with it.
\<close>

definition spec_wrap :: "real \<Rightarrow> real" where
  "spec_wrap p = p - TOTAL_LENGTH * of_int \<lfloor>p / TOTAL_LENGTH\<rfloor>"







text \<open>
  An application for the scenarios: \<open>CAR1\<close> is the local vehicle, \<open>CAR2\<close> a replica, and
  in the second one the locally owned ambulance besides. All time stamps are \<open>0\<close>.
\<close>

definition app1 :: app where
  "app1 = \<lparr> my_id = ''CAR1'',
            vehicles = [(''CAR1'', Some (car ''CAR1'' 1 0 25)),
                        (''CAR2'', Some (car ''CAR2'' 2 100 20))],
            i_own_ambulance = False \<rparr>"

definition app2 :: app where
  "app2 = \<lparr> my_id = ''CAR1'',
            vehicles = [(''CAR1'', Some (car ''CAR1'' 1 0 25)),
                        (''CAR2'', Some (car ''CAR2'' 2 100 20)),
                        (''AMB-1'', Some (ambulance 0 0))],
            i_own_ambulance = True \<rparr>"

text \<open>
  Messages: the empty object \<open>{}\<close> and objects with some keys. \<open>msg_partial\<close> is
  \<open>{"id": "CAR2", "x": 500}\<close>, \<open>msg_unknown\<close> is
  \<open>{"id": "CAR3", "lane": 1, "x": 5, "spd": 3}\<close>, and \<open>msg_full uid\<close> carries every key.
\<close>

definition wire_empty :: wire where
  "wire_empty = \<lparr> w_id = None, w_lane = None, w_x = None, w_spd = None, w_emb = None,
                   w_col = None, w_drw = None, w_brk = None \<rparr>"

definition msg_partial :: payload where
  "msg_partial = Object (wire_empty\<lparr> w_id := Some ''CAR2'', w_x := Some 500 \<rparr>)"

definition msg_unknown :: payload where
  "msg_unknown =
     Object (wire_empty\<lparr> w_id := Some ''CAR3'', w_lane := Some 1, w_x := Some 5,
                          w_spd := Some 3 \<rparr>)"

definition msg_full :: "string \<Rightarrow> payload" where
  "msg_full uid = to_json (car uid 3 700 5)"

text \<open>Every definition that evaluating a concrete step unfolds.\<close>

lemmas step_defs =
  update_physics_def scan_init_def scan_one_def d_ahead_def d_behind_def lt_inf_def
  inf_lt_def reset_flags_def logic_def physics_def all_vehicles_ok_def
  car_def ambulance_def draws_def
  Vehicle_init_def Let_def
  LANE_COUNT_def SERVICE_LANE_INDEX_def TOTAL_LENGTH_def MAX_SPEED_KMH_def
  MAX_SPEED_MS_def ACCEL_def BRAKE_def SAFE_DIST_def CRITICAL_DIST_def AMBULANCE_DIST_def

section \<open>Properties of update_physics\<close>

lemma scan_others_total:
  "list_all (\<lambda>e. e \<noteq> None) os \<Longrightarrow> \<exists>sc'. scan_others me os sc = Inr sc'"
proof (induction os arbitrary: sc)
  case Nil
  show ?case by simp
next
  case (Cons o1 os)
  then obtain other where o1: "o1 = Some other" by auto
  from Cons.prems have "list_all (\<lambda>e. e \<noteq> None) os" by simp
  from Cons.IH [OF this] show ?case by (simp add: o1)
qed

lemma update_physics_total:
  assumes "all_vehicles_ok st"
  shows "\<exists>sc. scan_others me (map snd st) scan_init = Inr sc
           \<and> update_physics me dt st drowsy
               = Inr (physics dt (logic drowsy sc (reset_flags dt me)))"
proof -
  from assms have "list_all (\<lambda>e. e \<noteq> None) (map snd st)"
    by (simp add: all_vehicles_ok_def list_all_iff)
  from scan_others_total [OF this] obtain sc
    where "scan_others me (map snd st) scan_init = Inr sc" by blast
  then show ?thesis by (simp add: update_physics_def)
qed

lemma physics_speed_bounds:
  "0 \<le> speed (physics dt v) \<and> speed (physics dt v) \<le> 1.5 * MAX_SPEED_MS"
  by (simp add: physics_def Let_def MAX_SPEED_MS_def MAX_SPEED_KMH_def)

text \<open>
  Claim C3. After one call of \<open>update_physics\<close> the speed lies between \<open>0\<close> and
  \<open>1.5 * MAX_SPEED_MS\<close>, whatever the vehicle, its target speed, the time step, the
  drowsiness signal and the other vehicles of the dictionary; and on a dictionary of
  vehicle objects the call does return.
\<close>

theorem C3_speed_bound:
  assumes "all_vehicles_ok st"
  shows "\<exists>v'. update_physics me dt st drowsy = Inr v'
           \<and> 0 \<le> speed v' \<and> speed v' \<le> 1.5 * MAX_SPEED_MS"
proof -
  from update_physics_total [OF assms] obtain sc
    where "update_physics me dt st drowsy
             = Inr (physics dt (logic drowsy sc (reset_flags dt me)))" by blast
  with physics_speed_bounds show ?thesis by simp
qed

theorem C3_speed_bound_witness:
  "\<exists>v'. update_physics (car ''A'' 1 0 30) 0.5
            [(''A'', Some (car ''A'' 1 0 30)), (''B'', Some (car ''B'' 1 50 0))] False = Inr v'
        \<and> 0 \<le> speed v' \<and> speed v' \<le> 1.5 * MAX_SPEED_MS"
  using C3_speed_bound [of "[(''A'', Some (car ''A'' 1 0 30)), (''B'', Some (car ''B'' 1 50 0))]"
      "car ''A'' 1 0 30" "0.5" False]
  by (simp add: all_vehicles_ok_def)

subsection \<open>Circular distances\<close>

text \<open>
  For positions in the half-open interval from \<open>0\<close> to \<open>TOTAL_LENGTH\<close> the two distances
  of the loop are the differences of the positions modulo \<open>TOTAL_LENGTH\<close>.
\<close>

lemma spec_wrap_id: "0 \<le> p \<Longrightarrow> p < TOTAL_LENGTH \<Longrightarrow> spec_wrap p = p"
proof -
  assume a: "0 \<le> p" "p < TOTAL_LENGTH"
  then have "\<lfloor>p / TOTAL_LENGTH\<rfloor> = 0"
    by (simp add: TOTAL_LENGTH_def floor_eq_iff)
  then show ?thesis by (simp add: spec_wrap_def)
qed






subsection \<open>What the loop computes\<close>

lemma scan_one_ambulance:
  "ambulance_behind (scan_one me other sc) =
     (ambulance_behind sc \<or> (v_id other \<noteq> v_id me \<and> lane other = lane me
        \<and> is_emergency other \<and> d_behind me other < AMBULANCE_DIST))"
  by (auto simp add: scan_one_def Let_def)

lemma scan_one_dist:
  "inf_lt (dist_to_ahead (scan_one me other sc)) c =
     (inf_lt (dist_to_ahead sc) c \<or> (v_id other \<noteq> v_id me \<and> lane other = lane me
        \<and> d_ahead me other < c))"
  by (auto simp add: scan_one_def Let_def inf_lt_def lt_inf_def split: option.splits)

lemma scan_others_ambulance:
  "scan_others me (map snd st) sc = Inr sc' \<Longrightarrow>
     ambulance_behind sc' = (ambulance_behind sc \<or> emergency_behind me st)"
proof (induction st arbitrary: sc)
  case Nil
  then show ?case by (simp add: emergency_behind_def)
next
  case (Cons e st)
  show ?case
  proof (cases "snd e")
    case None
    with Cons.prems show ?thesis by simp
  next
    case (Some other)
    with Cons.prems have "scan_others me (map snd st) (scan_one me other sc) = Inr sc'"
      by simp
    from Cons.IH [OF this] Some show ?thesis
      by (auto simp add: scan_one_ambulance emergency_behind_def)
  qed
qed

lemma scan_others_dist:
  "scan_others me (map snd st) sc = Inr sc' \<Longrightarrow>
     inf_lt (dist_to_ahead sc') c = (inf_lt (dist_to_ahead sc) c \<or> vehicle_ahead_within c me st)"
proof (induction st arbitrary: sc)
  case Nil
  then show ?case by (simp add: vehicle_ahead_within_def)
next
  case (Cons e st)
  show ?case
  proof (cases "snd e")
    case None
    with Cons.prems show ?thesis by simp
  next
    case (Some other)
    with Cons.prems have "scan_others me (map snd st) (scan_one me other sc) = Inr sc'"
      by simp
    from Cons.IH [OF this] Some show ?thesis
      by (auto simp add: scan_one_dist vehicle_ahead_within_def)
  qed
qed

lemma update_physics_result:
  assumes "all_vehicles_ok st"
  shows "\<exists>sc. update_physics me dt st drowsy
               = Inr (physics dt (logic drowsy sc (reset_flags dt me)))
           \<and> ambulance_behind sc = emergency_behind me st
           \<and> (\<forall>c. inf_lt (dist_to_ahead sc) c = vehicle_ahead_within c me st)"
proof -
  from update_physics_total [OF assms] obtain sc
    where sc: "scan_others me (map snd st) scan_init = Inr sc"
      and up: "update_physics me dt st drowsy
                 = Inr (physics dt (logic drowsy sc (reset_flags dt me)))" by blast
  have "ambulance_behind sc = emergency_behind me st"
    using scan_others_ambulance [OF sc] by (simp add: scan_init_def)
  moreover have "\<forall>c. inf_lt (dist_to_ahead sc) c = vehicle_ahead_within c me st"
    using scan_others_dist [OF sc] by (simp add: scan_init_def inf_lt_def)
  ultimately show ?thesis using up by blast
qed

lemma physics_keeps:
  "lane (physics dt v) = lane v" "lane_change_cooldown (physics dt v) = lane_change_cooldown v"
  "target_speed (physics dt v) = target_speed v" "braking (physics dt v) = braking v"
  "warning_vehicle_ahead (physics dt v) = warning_vehicle_ahead v"
  "drowsy_alert (physics dt v) = drowsy_alert v"
  by (simp_all add: physics_def Let_def)

subsection \<open>The rule chain\<close>

text \<open>
  Claim C7. A drowsy driver on a lane of the road other than the service lane, whose
  cooldown, once decremented, is not positive: the call raises the drowsiness alert, moves the vehicle one lane up,
  which is one step toward the service lane, sets the cooldown to \<open>1.0\<close>, and leaves the
  braking and warning flags cleared and the target speed as it was.
\<close>

theorem C7_impaired_lane_move:
  assumes "all_vehicles_ok st"
    and "lane me < LANE_COUNT" and "lane me \<noteq> SERVICE_LANE_INDEX"
    and "lane_change_cooldown me - dt \<le> 0"
  shows "\<exists>v'. update_physics me dt st True = Inr v'
           \<and> drowsy_alert v'
           \<and> lane v' = lane me + 1 \<and> lane v' \<le> SERVICE_LANE_INDEX
           \<and> lane_change_cooldown v' = 1.0
           \<and> \<not> braking v' \<and> \<not> warning_vehicle_ahead v'
           \<and> target_speed v' = target_speed me"
proof -
  from update_physics_result [OF assms(1)] obtain sc
    where up: "update_physics me dt st True
                 = Inr (physics dt (logic True sc (reset_flags dt me)))" by blast
  from assms(2-4) show ?thesis
    unfolding up
    by (simp add: physics_keeps logic_def reset_flags_def Let_def
        LANE_COUNT_def SERVICE_LANE_INDEX_def)
qed


theorem C7_impaired_lane_move_witness:
  "\<exists>v'. update_physics (car ''A'' 1 0 30) 0.5
            [(''A'', Some (car ''A'' 1 0 30)), (''B'', Some (car ''B'' 1 50 0))] True = Inr v'
        \<and> drowsy_alert v' \<and> lane v' = 2 \<and> lane_change_cooldown v' = 1
        \<and> \<not> braking v' \<and> \<not> warning_vehicle_ahead v' \<and> target_speed v' = 30"
  using C7_impaired_lane_move
    [of "[(''A'', Some (car ''A'' 1 0 30)), (''B'', Some (car ''B'' 1 50 0))]"
      "car ''A'' 1 0 30" "0.5"]
  by (auto simp add: all_vehicles_ok_def car_def Vehicle_init_def Let_def
      LANE_COUNT_def SERVICE_LANE_INDEX_def)





text \<open>
  Claim C10. With a driver who is not drowsy no rule of the chain writes \<open>drowsy_alert\<close>,
  and nothing clears it as \<open>braking\<close> and \<open>warning_vehicle_ahead\<close> are cleared before the
  chain: a vehicle that enters the call with the alert raised leaves it with the alert
  raised, here alone on the road and cruising freely.
\<close>

theorem C10_drowsy_alert_not_cleared:
  "update_physics ((car ''A'' 1 0 25)\<lparr> drowsy_alert := True, braking := True \<rparr>) 0.5
     [(''A'', Some ((car ''A'' 1 0 25)\<lparr> drowsy_alert := True, braking := True \<rparr>))] False
   = Inr ((car ''A'' 1 0 25)
            \<lparr> drowsy_alert := True, braking := False, v_x := 12.5,
               lane_change_cooldown := - 0.5 \<rparr>)"
  by (simp add: step_defs)

text \<open>
  The same in general: with a driver who is not drowsy the call returns the alert flag it
  was given, whereas the braking and warning flags it was given have no influence on
  what it returns.
\<close>

lemma logic_alert_kept:
  "drowsy_alert (logic False sc v) = drowsy_alert v"
  by (simp add: logic_def Let_def)

lemma update_physics_alert_kept:
  "update_physics me dt st False = Inr v' \<Longrightarrow> drowsy_alert v' = drowsy_alert me"
  by (auto simp add: update_physics_def physics_keeps logic_alert_kept reset_flags_def
      split: sum.splits)

lemma scan_one_flags:
  "scan_one (me\<lparr> braking := b, warning_vehicle_ahead := w \<rparr>) other sc = scan_one me other sc"
  by (simp add: scan_one_def d_ahead_def d_behind_def)

lemma scan_others_flags:
  "scan_others (me\<lparr> braking := b, warning_vehicle_ahead := w \<rparr>) os sc = scan_others me os sc"
proof (induction os arbitrary: sc)
  case Nil
  show ?case by simp
next
  case (Cons o1 os)
  then show ?case by (cases o1) (simp_all add: scan_one_flags)
qed

lemma update_physics_flags_fresh:
  "update_physics (me\<lparr> braking := b, warning_vehicle_ahead := w \<rparr>) dt st drowsy
     = update_physics me dt st drowsy"
proof -
  have "reset_flags dt (me\<lparr> braking := b, warning_vehicle_ahead := w \<rparr>) = reset_flags dt me"
    by (simp add: reset_flags_def)
  then show ?thesis
    by (simp add: update_physics_def scan_others_flags split: sum.splits)
qed

subsection \<open>The position step\<close>

lemma logic_keeps_x: "v_x (logic drowsy sc v) = v_x v"
  by (simp add: logic_def Let_def)

lemma logic_keeps_speed: "speed (logic drowsy sc v) = speed v"
  by (simp add: logic_def Let_def)

lemma physics_x:
  "v_x (physics dt v) =
     (if v_x v + speed (physics dt v) * dt > TOTAL_LENGTH then 0
      else v_x v + speed (physics dt v) * dt)"
  by (simp add: physics_def Let_def)

text \<open>
  Claim C4, as amended. After one call the position is the old position plus the new
  speed times \<open>dt\<close>, unless that sum exceeds \<open>TOTAL_LENGTH\<close>, in which case the position is
  \<open>0\<close>. From a position that is not negative and with \<open>dt\<close> not negative the result lies in
  the closed interval from \<open>0\<close> to \<open>TOTAL_LENGTH\<close>; as long as the sum stays below
  \<open>TOTAL_LENGTH\<close> it is the position modulo \<open>TOTAL_LENGTH\<close> and lies below \<open>TOTAL_LENGTH\<close>.
\<close>

theorem C4_position_step:
  assumes "all_vehicles_ok st"
  shows "\<exists>v'. update_physics me dt st drowsy = Inr v'
           \<and> v_x v' = (if v_x me + speed v' * dt > TOTAL_LENGTH then 0
                       else v_x me + speed v' * dt)
           \<and> (0 \<le> v_x me \<and> 0 \<le> dt \<longrightarrow> 0 \<le> v_x v' \<and> v_x v' \<le> TOTAL_LENGTH)
           \<and> (0 \<le> v_x me \<and> 0 \<le> dt \<and> v_x me + speed v' * dt < TOTAL_LENGTH
                \<longrightarrow> v_x v' = spec_wrap (v_x me + speed v' * dt) \<and> v_x v' < TOTAL_LENGTH)"
proof -
  from update_physics_total [OF assms] obtain sc
    where up: "update_physics me dt st drowsy
                 = Inr (physics dt (logic drowsy sc (reset_flags dt me)))" by blast
  define v where "v = logic drowsy sc (reset_flags dt me)"
  have x: "v_x v = v_x me"
    by (simp add: v_def logic_keeps_x reset_flags_def)
  have sp: "0 \<le> speed (physics dt v)"
    using physics_speed_bounds [of dt v] by simp
  have px: "v_x (physics dt v) =
     (if v_x me + speed (physics dt v) * dt > TOTAL_LENGTH then 0
      else v_x me + speed (physics dt v) * dt)"
    using physics_x [of dt v] by (simp add: x)
  have nonneg: "0 \<le> v_x me \<Longrightarrow> 0 \<le> dt \<Longrightarrow> 0 \<le> v_x me + speed (physics dt v) * dt"
    using sp by simp
  have "0 \<le> v_x me \<and> 0 \<le> dt \<longrightarrow>
          0 \<le> v_x (physics dt v) \<and> v_x (physics dt v) \<le> TOTAL_LENGTH"
    using nonneg by (simp add: px TOTAL_LENGTH_def)
  moreover have "0 \<le> v_x me \<and> 0 \<le> dt \<and> v_x me + speed (physics dt v) * dt < TOTAL_LENGTH
          \<longrightarrow> v_x (physics dt v) = spec_wrap (v_x me + speed (physics dt v) * dt)
            \<and> v_x (physics dt v) < TOTAL_LENGTH"
    using nonneg by (simp add: px spec_wrap_id)
  ultimately show ?thesis
    unfolding up v_def [symmetric] using px by simp
qed

theorem C4_position_step_witness:
  "\<exists>v'. update_physics (car ''A'' 1 100 25) 0.5 [(''A'', Some (car ''A'' 1 100 25))] False
          = Inr v'
        \<and> v_x v' = 112.5 \<and> v_x v' = spec_wrap 112.5 \<and> speed v' = 25"
  using C4_position_step
    [of "[(''A'', Some (car ''A'' 1 100 25))]" "car ''A'' 1 100 25" "0.5" False]
  by (auto simp add: step_defs spec_wrap_def)

text \<open>
  Claim C4 as stated fails twice. A car at position 1990 with speed 25 and \<open>dt = 0.5\<close>
  reaches 2002.5, which is 2.5 modulo 2000, and the call puts it at position 0. A car at
  position 1987.5 reaches 2000 exactly, which does not exceed \<open>TOTAL_LENGTH\<close>: it stays at
  2000, outside the half-open interval.
\<close>

theorem C4_modulo_counterexample:
  "update_physics (car ''A'' 1 1990 25) 0.5 [(''A'', Some (car ''A'' 1 1990 25))] False
     = Inr ((car ''A'' 1 1990 25)\<lparr> v_x := 0, lane_change_cooldown := - 0.5 \<rparr>)
   \<and> speed ((car ''A'' 1 1990 25)\<lparr> v_x := 0, lane_change_cooldown := - 0.5 \<rparr>) = 25
   \<and> spec_wrap (1990 + 25 * 0.5) = 2.5
   \<and> update_physics (car ''B'' 1 1987.5 25) 0.5 [(''B'', Some (car ''B'' 1 1987.5 25))] False
     = Inr ((car ''B'' 1 1987.5 25)\<lparr> v_x := TOTAL_LENGTH, lane_change_cooldown := - 0.5 \<rparr>)"
  by (simp add: step_defs spec_wrap_def)

section \<open>Properties of the codec\<close>

text \<open>
  Claim C6. Decoding the encoding of a vehicle succeeds and gives a vehicle with the same
  \<open>id\<close>, \<open>lane\<close>, \<open>x\<close>, \<open>speed\<close>, \<open>is_emergency\<close>, \<open>color\<close>, \<open>drowsy_alert\<close> and \<open>braking\<close>,
  whatever the clock and the random draws of the constructor.
\<close>

theorem C6_codec_round_trip:
  "\<exists>v'. from_json now r (to_json v) = Some v'
     \<and> v_id v' = v_id v \<and> lane v' = lane v \<and> v_x v' = v_x v \<and> speed v' = speed v
     \<and> is_emergency v' = is_emergency v \<and> color v' = color v
     \<and> drowsy_alert v' = drowsy_alert v \<and> braking v' = braking v"
  by (simp add: from_json_def from_json_try_def to_json_def Vehicle_init_def Let_def)

section \<open>Properties of the replication store\<close>

lemma on_message_my_id [simp]: "my_id (on_message now r p a) = my_id a"
  by (simp add: on_message_def on_message_try_def split: payload.splits option.splits prod.splits)

lemma on_message_own [simp]: "i_own_ambulance (on_message now r p a) = i_own_ambulance a"
  by (simp add: on_message_def on_message_try_def split: payload.splits option.splits prod.splits)

lemma on_message_other_key:
  assumes "\<forall>d. p = Object d \<longrightarrow> w_id d \<noteq> Some k"
  shows "map_of (vehicles (on_message now r p a)) k = map_of (vehicles a) k"
  using assms
  by (auto simp add: on_message_def on_message_try_def update_conv'
      split: payload.splits option.splits prod.splits)

lemma on_message_self_ignored:
  "w_id d = Some (my_id a) \<Longrightarrow> on_message now r (Object d) a = a"
  by (simp add: on_message_def on_message_try_def)

lemma on_message_owned_ambulance_ignored:
  "i_own_ambulance a \<Longrightarrow> w_id d = Some ''AMB-1'' \<Longrightarrow> on_message now r (Object d) a = a"
  by (simp add: on_message_def on_message_try_def)

lemma on_message_keeps_self:
  "map_of (vehicles (on_message now r p a)) (my_id a) = map_of (vehicles a) (my_id a)"
proof (cases "\<exists>d. p = Object d \<and> w_id d = Some (my_id a)")
  case True
  then show ?thesis by (auto simp add: on_message_self_ignored)
next
  case False
  then show ?thesis by (intro on_message_other_key) auto
qed

lemma on_message_keeps_ambulance:
  assumes "i_own_ambulance a"
  shows "map_of (vehicles (on_message now r p a)) ''AMB-1'' = map_of (vehicles a) ''AMB-1''"
proof (cases "\<exists>d. p = Object d \<and> w_id d = Some ''AMB-1''")
  case True
  with assms show ?thesis by (auto simp add: on_message_owned_ambulance_ignored)
next
  case False
  then show ?thesis by (intro on_message_other_key) auto
qed

lemma on_messages_keeps:
  "my_id (on_messages ms a) = my_id a
   \<and> i_own_ambulance (on_messages ms a) = i_own_ambulance a
   \<and> map_of (vehicles (on_messages ms a)) (my_id a) = map_of (vehicles a) (my_id a)
   \<and> (i_own_ambulance a \<longrightarrow>
        map_of (vehicles (on_messages ms a)) ''AMB-1'' = map_of (vehicles a) ''AMB-1'')"
proof (induction ms arbitrary: a)
  case Nil
  show ?case by simp
next
  case (Cons m ms)
  obtain now r p where m: "m = (now, r, p)" by (cases m)
  from Cons.IH [of "on_message now r p a"] show ?case
    by (simp add: m on_message_keeps_self on_message_keeps_ambulance)
qed

text \<open>
  Claim C2. Whatever the sequence of deliveries, the entry under the own id is afterwards
  what it was before, and so is the entry under \<open>AMB-1\<close> when the application owns the
  ambulance; the own id and the ownership flag do not change either. A single message
  whose id is the own id, or \<open>AMB-1\<close> while the ambulance is owned, leaves the whole
  application unchanged.
\<close>

theorem C2_ownership:
  "my_id (on_messages ms a) = my_id a
   \<and> i_own_ambulance (on_messages ms a) = i_own_ambulance a
   \<and> map_of (vehicles (on_messages ms a)) (my_id a) = map_of (vehicles a) (my_id a)
   \<and> (i_own_ambulance a \<longrightarrow>
        map_of (vehicles (on_messages ms a)) ''AMB-1'' = map_of (vehicles a) ''AMB-1'')
   \<and> (w_id d = Some (my_id a) \<longrightarrow> on_message now r (Object d) a = a)
   \<and> (i_own_ambulance a \<and> w_id d = Some ''AMB-1'' \<longrightarrow> on_message now r (Object d) a = a)"
  using on_messages_keeps [of ms a]
  by (simp add: on_message_self_ignored on_message_owned_ambulance_ignored)

theorem C2_ownership_witness:
  "map_of (vehicles (on_messages
       [(5, draws, msg_full ''CAR1''), (6, draws, msg_full ''AMB-1''),
        (7, draws, msg_full ''CAR2''), (8, draws, NotJSON)] app2)) ''CAR1''
     = Some (Some (car ''CAR1'' 1 0 25))
   \<and> map_of (vehicles (on_messages
       [(5, draws, msg_full ''CAR1''), (6, draws, msg_full ''AMB-1''),
        (7, draws, msg_full ''CAR2''), (8, draws, NotJSON)] app2)) ''AMB-1''
     = Some (Some (ambulance 0 0))"
  using C2_ownership
    [of "[(5, draws, msg_full ''CAR1''), (6, draws, msg_full ''AMB-1''),
          (7, draws, msg_full ''CAR2''), (8, draws, NotJSON)]" app2 wire_empty 0 draws]
  by (simp add: app2_def)

subsection \<open>cleanup_ghosts\<close>

lemma map_of_del_all:
  "map_of (del_all gs st) k = (if k \<in> set gs then None else map_of st k)"
  by (induction gs arbitrary: st) (auto simp add: delete_conv')

lemma ghost_ids_total:
  "list_all (\<lambda>e. snd e \<noteq> None) st \<Longrightarrow> \<exists>gs. ghost_ids me now st = Inr gs"
proof (induction st)
  case Nil
  show ?case by simp
next
  case (Cons e st)
  obtain vid x where e: "e = (vid, x)" by (cases e)
  from Cons obtain gs where "ghost_ids me now st = Inr gs" by auto
  with Cons.prems show ?case by (auto simp add: e)
qed

lemma ghost_ids_set:
  "ghost_ids me now st = Inr gs \<Longrightarrow>
     set gs = {vid. vid \<noteq> me \<and> (\<exists>v. (vid, Some v) \<in> set st \<and> now - last_update v > GHOST_TIMEOUT)}"
proof (induction st arbitrary: gs)
  case Nil
  then show ?case by simp
next
  case (Cons e st)
  obtain vid x where e: "e = (vid, x)" by (cases e)
  show ?case
  proof (cases "vid = me")
    case True
    with Cons.prems have "ghost_ids me now st = Inr gs" by (simp add: e)
    from Cons.IH [OF this] True show ?thesis by (auto simp add: e)
  next
    case False
    with Cons.prems obtain v gs0 where x: "x = Some v" and g0: "ghost_ids me now st = Inr gs0"
      and gs: "gs = (if now - last_update v > GHOST_TIMEOUT then vid # gs0 else gs0)"
      by (auto simp add: e split: option.splits sum.splits)
    from Cons.IH [OF g0] False show ?thesis
      by (auto simp add: e x gs)
  qed
qed

lemma ghost_ids_distinct:
  "ghost_ids me now st = Inr gs \<Longrightarrow> distinct (map fst st) \<Longrightarrow> distinct gs"
proof (induction st arbitrary: gs)
  case Nil
  then show ?case by simp
next
  case (Cons e st)
  obtain vid x where e: "e = (vid, x)" by (cases e)
  show ?case
  proof (cases "vid = me")
    case True
    with Cons show ?thesis by (simp add: e)
  next
    case False
    with Cons.prems obtain v gs0 where x: "x = Some v" and g0: "ghost_ids me now st = Inr gs0"
      and gs: "gs = (if now - last_update v > GHOST_TIMEOUT then vid # gs0 else gs0)"
      by (auto simp add: e split: option.splits sum.splits)
    from Cons.prems have d: "distinct (map fst st)" and nin: "vid \<notin> fst ` set st"
      by (simp_all add: e)
    from ghost_ids_set [OF g0] nin have "vid \<notin> set gs0" by force
    with Cons.IH [OF g0 d] show ?thesis by (simp add: gs)
  qed
qed

text \<open>
  Claim C5. In a dictionary of vehicle objects with distinct keys, take an entry whose
  time stamp is \<open>t0\<close>. Unless its key is the own id or the owned \<open>AMB-1\<close>, a sweep at a
  time later than \<open>t0 + GHOST_TIMEOUT\<close> removes it; a sweep at a time up to
  \<open>t0 + GHOST_TIMEOUT\<close> keeps it; and no sweep changes the entry under the own id, nor
  the entry under \<open>AMB-1\<close> while the ambulance is owned. The sweep returns.
\<close>

theorem C5_ghost_eviction:
  assumes "all_vehicles_ok (vehicles a)" and "keys_ok (vehicles a)"
    and "map_of (vehicles a) vid = Some (Some v)" and "last_update v = t0"
  shows "\<exists>a'. cleanup_ghosts now a = Inr a'
           \<and> (vid \<noteq> my_id a \<and> \<not> (i_own_ambulance a \<and> vid = ''AMB-1'')
                \<and> now > t0 + GHOST_TIMEOUT \<longrightarrow> map_of (vehicles a') vid = None)
           \<and> (now \<le> t0 + GHOST_TIMEOUT \<longrightarrow> map_of (vehicles a') vid = Some (Some v))
           \<and> map_of (vehicles a') (my_id a) = map_of (vehicles a) (my_id a)
           \<and> (i_own_ambulance a \<longrightarrow>
                map_of (vehicles a') ''AMB-1'' = map_of (vehicles a) ''AMB-1'')"
proof -
  from assms(1) obtain gs where gs: "ghost_ids (my_id a) now (vehicles a) = Inr gs"
    using ghost_ids_total [of "vehicles a" "my_id a" now] by (auto simp add: all_vehicles_ok_def)
  define gs' where "gs' = (if i_own_ambulance a \<and> ''AMB-1'' \<in> set gs
                           then remove1 ''AMB-1'' gs else gs)"
  define a' where "a' = a\<lparr> vehicles := del_all gs' (vehicles a) \<rparr>"
  have res: "cleanup_ghosts now a = Inr a'"
    by (simp add: cleanup_ghosts_def gs gs'_def a'_def Let_def)
  have dist: "distinct gs"
    using ghost_ids_distinct [OF gs] assms(2) by (simp add: keys_ok_def)
  have set_gs: "set gs = {k. k \<noteq> my_id a \<and>
      (\<exists>w. (k, Some w) \<in> set (vehicles a) \<and> now - last_update w > GHOST_TIMEOUT)}"
    by (rule ghost_ids_set [OF gs])
  have set_gs': "set gs' = (if i_own_ambulance a then set gs - {''AMB-1''} else set gs)"
    using dist by (auto simp add: gs'_def)
  have lk: "\<And>k. map_of (vehicles a') k = (if k \<in> set gs' then None else map_of (vehicles a) k)"
    by (simp add: a'_def map_of_del_all)
  have mem: "(vid, Some v) \<in> set (vehicles a)"
    using assms(3) by (rule map_of_SomeD)
  have only: "\<And>w. (vid, Some w) \<in> set (vehicles a) \<Longrightarrow> w = v"
    using assms(2,3) by (auto simp add: keys_ok_def)
  have c1: "vid \<noteq> my_id a \<and> \<not> (i_own_ambulance a \<and> vid = ''AMB-1'')
              \<and> now > t0 + GHOST_TIMEOUT \<longrightarrow> map_of (vehicles a') vid = None"
    using mem assms(4) by (auto simp add: lk set_gs' set_gs)
  have c2: "now \<le> t0 + GHOST_TIMEOUT \<longrightarrow> map_of (vehicles a') vid = Some (Some v)"
    using only assms(3,4) by (auto simp add: lk set_gs' set_gs)
  have c3: "map_of (vehicles a') (my_id a) = map_of (vehicles a) (my_id a)"
    by (auto simp add: lk set_gs' set_gs)
  have c4: "i_own_ambulance a \<longrightarrow>
              map_of (vehicles a') ''AMB-1'' = map_of (vehicles a) ''AMB-1''"
    by (auto simp add: lk set_gs')
  from res c1 c2 c3 c4 show ?thesis by blast
qed


theorem C5_ghost_eviction_witness:
  "(\<exists>a'. cleanup_ghosts 3.5 app2 = Inr a'
      \<and> map_of (vehicles a') ''CAR2'' = None
      \<and> map_of (vehicles a') ''CAR1'' = Some (Some (car ''CAR1'' 1 0 25))
      \<and> map_of (vehicles a') ''AMB-1'' = Some (Some (ambulance 0 0)))
   \<and> (\<exists>a'. cleanup_ghosts 2.5 app2 = Inr a'
      \<and> map_of (vehicles a') ''CAR2'' = Some (Some (car ''CAR2'' 2 100 20)))"
  using C5_ghost_eviction [of app2 "''CAR2''" "car ''CAR2'' 2 100 20" 0 "3.5"]
    C5_ghost_eviction [of app2 "''CAR2''" "car ''CAR2'' 2 100 20" 0 "2.5"]
  by (auto simp add: app2_def all_vehicles_ok_def keys_ok_def GHOST_TIMEOUT_def
      car_def ambulance_def Vehicle_init_def Let_def)

subsection \<open>Malformed messages\<close>

text \<open>
  A payload that is not JSON, or no object, or an object without \<open>id\<close>, leaves the
  application unchanged.
\<close>

lemma on_message_undecodable:
  "on_message now r NotJSON a = a"
  "on_message now r NonObject a = a"
  "w_id d = None \<Longrightarrow> on_message now r (Object d) a = a"
  by (simp_all add: on_message_def on_message_try_def)

text \<open>
  Claim C1. An object with an \<open>id\<close> but without another required key does change the
  dictionary. For the known id \<open>CAR2\<close>, \<open>{"id": "CAR2", "x": 500}\<close> assigns \<open>x\<close> before the
  lookup of \<open>lane\<close> raises, and the assignment stays. For the unknown id \<open>CAR3\<close>, a message
  without \<open>emb\<close> and \<open>col\<close> makes \<open>from_json\<close> return \<open>None\<close>, which is stored under the new
  key; the next \<open>update_physics\<close> and the next \<open>cleanup_ghosts\<close> then raise
  \<open>AttributeError\<close>.
\<close>

theorem C1_malformed_message_applied:
  "on_message 9 draws msg_partial app1
     = app1\<lparr> vehicles := [(''CAR1'', Some (car ''CAR1'' 1 0 25)),
                          (''CAR2'', Some ((car ''CAR2'' 2 100 20)\<lparr> v_x := 500 \<rparr>))] \<rparr>
   \<and> from_json 9 draws msg_unknown = None
   \<and> on_message 9 draws msg_unknown app1
     = app1\<lparr> vehicles := [(''CAR1'', Some (car ''CAR1'' 1 0 25)),
                          (''CAR2'', Some (car ''CAR2'' 2 100 20)),
                          (''CAR3'', None)] \<rparr>
   \<and> update_physics (car ''CAR1'' 1 0 25) 0.5
        (vehicles (on_message 9 draws msg_unknown app1)) False = Inl AttributeError
   \<and> cleanup_ghosts 9 (on_message 9 draws msg_unknown app1) = Inl AttributeError"
  by (simp add: on_message_def on_message_try_def assign_fields_def from_json_def
      from_json_try_def msg_partial_def msg_unknown_def wire_empty_def app1_def
      update_physics_def cleanup_ghosts_def)

end
